theory Spec2Isabelle
  imports Main "HOL-Library.Word"
begin

section \<open>The Consumer entity proxy of \<^verbatim>\<open>src/src/Consumer.ts\<close>\<close>

text \<open>
  The class \<^verbatim>\<open>Consumer\<close> keeps a few private fields and talks to three collaborators
  that are not part of the file: the \<^verbatim>\<open>Channel\<close> (requests to the worker, and the
  notifications routed by consumer id), the \<^verbatim>\<open>PayloadChannel\<close> (binary notifications)
  and two event emitters (the Consumer itself and its observer). The embedding keeps the
  private fields in a record and writes every call on a collaborator as an entry of an
  effect trace, in program order. What the worker answers to a request is a parameter of
  the operation that awaits it.
\<close>

subsection \<open>JavaScript values\<close>

text \<open>
  Values typed \<^verbatim>\<open>any\<close> in the source (request and response payloads, notification
  data, \<^verbatim>\<open>appData\<close>, event arguments). The code does no arithmetic on numbers, it only
  stores and forwards them, so a number is an \<^typ>\<open>int\<close> here; \<^verbatim>\<open>NaN\<close> and
  fractions are not represented.
\<close>

datatype js =
    JUndefined
  | JNull
  | JBool bool
  | JNum int
  | JStr string
  | JArr "js list"
  | JObj "(string \<times> js) list"
  | JBuffer "8 word list"

text \<open>What the source can throw, or a promise can be rejected with.\<close>

datatype error =
    Error string
  | TypeError

text \<open>Truthiness, as \<^verbatim>\<open>data || undefined\<close> tests it.\<close>

fun truthy :: "js \<Rightarrow> bool" where
  "truthy JUndefined = False"
| "truthy JNull = False"
| "truthy (JBool b) = b"
| "truthy (JNum n) = (n \<noteq> 0)"
| "truthy (JStr s) = (s \<noteq> [])"
| "truthy (JArr xs) = True"
| "truthy (JObj kvs) = True"
| "truthy (JBuffer bs) = True"

text \<open>
  Property read \<^verbatim>\<open>v.k\<close> for a key that no prototype defines: a \<^verbatim>\<open>TypeError\<close> on
  \<^verbatim>\<open>undefined\<close> and \<^verbatim>\<open>null\<close>, the stored value on an object that has the key,
  \<^verbatim>\<open>undefined\<close> otherwise.
\<close>

fun js_get :: "js \<Rightarrow> string \<Rightarrow> error + js" where
  "js_get JUndefined k = Inl TypeError"
| "js_get JNull k = Inl TypeError"
| "js_get (JObj kvs) k = Inr (case map_of kvs k of Some v \<Rightarrow> v | None \<Rightarrow> JUndefined)"
| "js_get v k = Inr JUndefined"

subsection \<open>State and effects\<close>

record consumer_internal =
  routerId :: string
  transportId :: string
  consumerId :: string
  producerId :: string

text \<open>The private fields of the class (the collaborators are in the effect trace).\<close>

record consumer =
  internal :: consumer_internal
  data :: js
  closed :: bool
  appData :: js
  paused :: bool
  producerPaused :: bool
  priority :: js
  score :: js
  preferredLayers :: js
  currentLayers :: js

text \<open>
  One entry per call on a collaborator: \<^verbatim>\<open>logger.debug\<close>, \<^verbatim>\<open>logger.error\<close>,
  \<^verbatim>\<open>this._channel.on\<close>, \<^verbatim>\<open>this._payloadChannel.on\<close>,
  \<^verbatim>\<open>this._channel.removeAllListeners\<close>, \<^verbatim>\<open>this._channel.request\<close> (method,
  internal, data), \<^verbatim>\<open>this.emit\<close>, \<^verbatim>\<open>this.safeEmit\<close> and
  \<^verbatim>\<open>this._observer.safeEmit\<close> (event name, arguments).
\<close>

datatype effect =
    LoggerDebug string
  | LoggerError string "js list"
  | ChannelOn string
  | PayloadChannelOn string
  | ChannelRemoveAllListeners string
  | ChannelRequest string consumer_internal js
  | Emit string "js list"
  | SafeEmit string "js list"
  | ObserverSafeEmit string "js list"

text \<open>How the promise returned by \<^verbatim>\<open>this._channel.request\<close> settles.\<close>

datatype response =
    Resolved js
  | Rejected error

text \<open>
  What the listeners of a plain \<^verbatim>\<open>this.emit\<close> do. The emitter calls them in turn
  inside \<^verbatim>\<open>emit\<close>: either all of them return, or the first that throws ends
  \<^verbatim>\<open>emit\<close>, and the method that called it, with its error. (\<^verbatim>\<open>safeEmit\<close>
  catches what its listeners throw.)
\<close>

datatype listeners =
    Return
  | Throw error

text \<open>Reading a trace: the requests placed, and the event names each emitter saw.\<close>

fun requests :: "effect list \<Rightarrow> string list" where
  "requests [] = []"
| "requests (ChannelRequest m i d # es) = m # requests es"
| "requests (e # es) = requests es"

fun observer_events :: "effect list \<Rightarrow> string list" where
  "observer_events [] = []"
| "observer_events (ObserverSafeEmit n args # es) = n # observer_events es"
| "observer_events (e # es) = observer_events es"

fun local_events :: "effect list \<Rightarrow> string list" where
  "local_events [] = []"
| "local_events (Emit n args # es) = n # local_events es"
| "local_events (SafeEmit n args # es) = n # local_events es"
| "local_events (e # es) = local_events es"

subsection \<open>Construction and accessors\<close>

record consumer_args =
  arg_internal :: consumer_internal
  arg_data :: js
  arg_appData :: js
  arg_paused :: bool
  arg_producerPaused :: bool
  arg_score :: js
  arg_preferredLayers :: js

text \<open>
  \<^verbatim>\<open>_handleWorkerNotifications()\<close> registers one listener on the channel and one on
  the payload channel, both under the consumer id; their bodies are
  \<open>channel_listener\<close> and \<open>payloadChannel_listener\<close> below.
\<close>

definition handleWorkerNotifications :: "consumer \<Rightarrow> effect list" where
  "handleWorkerNotifications s =
     [ChannelOn (consumerId (internal s)), PayloadChannelOn (consumerId (internal s))]"

text \<open>
  The constructor: the field initialisers, then the assignments from the arguments. The
  parameter \<^verbatim>\<open>score\<close> has a default, used when the argument is \<^verbatim>\<open>undefined\<close>.
\<close>

definition new_consumer :: "consumer_args \<Rightarrow> effect list \<times> consumer" where
  "new_consumer a =
     (let s = \<lparr> internal = arg_internal a,
                data = arg_data a,
                closed = False,
                appData = arg_appData a,
                paused = arg_paused a,
                producerPaused = arg_producerPaused a,
                priority = JNum 1,
                score = (if arg_score a = JUndefined
                         then JObj [(''score'', JNum 10), (''producerScore'', JNum 10),
                                    (''producerScores'', JArr [])]
                         else arg_score a),
                preferredLayers = arg_preferredLayers a,
                currentLayers = JUndefined \<rparr>
      in (LoggerDebug ''constructor()'' # handleWorkerNotifications s, s))"

definition get_appData :: "consumer \<Rightarrow> js" where
  "get_appData s = appData s"

text \<open>\<^verbatim>\<open>set appData(appData)\<close>: throws, whatever the argument.\<close>

definition set_appData :: "consumer \<Rightarrow> js \<Rightarrow> (error + unit) \<times> consumer" where
  "set_appData s v = (Inl (Error ''cannot override appData object''), s)"

subsection \<open>Synchronous operations\<close>

text \<open>
  \<^verbatim>\<open>close()\<close>. The request is placed and its promise gets \<^verbatim>\<open>.catch(() => {})\<close>:
  the second argument is how that promise settles, after the method has returned, and
  either way nothing more happens. \<^verbatim>\<open>@close\<close> goes out with a plain
  \<^verbatim>\<open>emit\<close>: the third argument is what its listeners do, and when one throws, the
  method ends there with that error, the flag set and the request placed, and the observer
  is not told.
\<close>

definition close ::
  "consumer \<Rightarrow> response \<Rightarrow> listeners \<Rightarrow> effect list \<times> (error + unit) \<times> consumer" where
  "close s r l =
     (if closed s then ([], Inr (), s)
      else
        (let s1 = s\<lparr>closed := True\<rparr> in
         (case l of
            Throw e \<Rightarrow>
              ([LoggerDebug ''close()'',
                ChannelRemoveAllListeners (consumerId (internal s1)),
                ChannelRequest ''consumer.close'' (internal s1) JUndefined,
                Emit ''@close'' []]
               @ (case r of Resolved d \<Rightarrow> [] | Rejected e' \<Rightarrow> []),
               Inl e, s1)
          | Return \<Rightarrow>
              ([LoggerDebug ''close()'',
                ChannelRemoveAllListeners (consumerId (internal s1)),
                ChannelRequest ''consumer.close'' (internal s1) JUndefined,
                Emit ''@close'' [],
                ObserverSafeEmit ''close'' []]
               @ (case r of Resolved d \<Rightarrow> [] | Rejected e' \<Rightarrow> []),
               Inr (), s1))))"

definition transportClosed :: "consumer \<Rightarrow> effect list \<times> consumer" where
  "transportClosed s =
     (if closed s then ([], s)
      else
        (let s1 = s\<lparr>closed := True\<rparr> in
         ([LoggerDebug ''transportClosed()'',
           ChannelRemoveAllListeners (consumerId (internal s1)),
           SafeEmit ''transportclose'' [],
           ObserverSafeEmit ''close'' []],
          s1)))"

subsection \<open>Asynchronous operations\<close>

text \<open>
  An \<^verbatim>\<open>async\<close> method runs up to its \<^verbatim>\<open>await\<close> when it is called (\<open>_request\<close>:
  the trace up to and including the request, and the locals it keeps), and goes on when the
  promise settles (\<open>_settled\<close>: on the fields as they are then). \<open>await_response\<close>
  joins the two for a call whose request is answered before anything else is delivered to
  the Consumer.
\<close>

type_synonym 'r outcome = "effect list \<times> (error + 'r) \<times> consumer"

definition await_response ::
  "(consumer \<Rightarrow> effect list \<times> 'c) \<Rightarrow> ('c \<Rightarrow> consumer \<Rightarrow> response \<Rightarrow> 'r outcome) \<Rightarrow>
   consumer \<Rightarrow> response \<Rightarrow> 'r outcome" where
  "await_response call settled s r =
     (case call s of (es, c) \<Rightarrow>
        (case settled c s r of (es', res, s') \<Rightarrow> (es @ es', res, s')))"

definition dump_request :: "consumer \<Rightarrow> effect list \<times> unit" where
  "dump_request s =
     ([LoggerDebug ''dump()'', ChannelRequest ''consumer.dump'' (internal s) JUndefined], ())"

definition dump_settled :: "unit \<Rightarrow> consumer \<Rightarrow> response \<Rightarrow> js outcome" where
  "dump_settled u s r =
     (case r of Rejected e \<Rightarrow> ([], Inl e, s) | Resolved d \<Rightarrow> ([], Inr d, s))"

definition dump :: "consumer \<Rightarrow> response \<Rightarrow> js outcome" where
  "dump = await_response dump_request dump_settled"

definition getStats_request :: "consumer \<Rightarrow> effect list \<times> unit" where
  "getStats_request s =
     ([LoggerDebug ''getStats()'',
       ChannelRequest ''consumer.getStats'' (internal s) JUndefined], ())"

definition getStats_settled :: "unit \<Rightarrow> consumer \<Rightarrow> response \<Rightarrow> js outcome" where
  "getStats_settled u s r =
     (case r of Rejected e \<Rightarrow> ([], Inl e, s) | Resolved d \<Rightarrow> ([], Inr d, s))"

definition getStats :: "consumer \<Rightarrow> response \<Rightarrow> js outcome" where
  "getStats = await_response getStats_request getStats_settled"

text \<open>\<^verbatim>\<open>pause()\<close>: \<^verbatim>\<open>wasPaused\<close> is read before the request.\<close>

definition pause_request :: "consumer \<Rightarrow> effect list \<times> bool" where
  "pause_request s =
     (let wasPaused = (paused s \<or> producerPaused s) in
      ([LoggerDebug ''pause()'',
        ChannelRequest ''consumer.pause'' (internal s) JUndefined], wasPaused))"

definition pause_settled :: "bool \<Rightarrow> consumer \<Rightarrow> response \<Rightarrow> unit outcome" where
  "pause_settled wasPaused s r =
     (case r of
        Rejected e \<Rightarrow> ([], Inl e, s)
      | Resolved d \<Rightarrow>
          (let s1 = s\<lparr>paused := True\<rparr> in
           ((if \<not> wasPaused then [ObserverSafeEmit ''pause'' []] else []), Inr (), s1)))"

definition pause :: "consumer \<Rightarrow> response \<Rightarrow> unit outcome" where
  "pause = await_response pause_request pause_settled"

text \<open>
  \<^verbatim>\<open>resume()\<close>: \<^verbatim>\<open>wasPaused\<close> is read before the request,
  \<^verbatim>\<open>this._producerPaused\<close> after it.
\<close>

definition resume_request :: "consumer \<Rightarrow> effect list \<times> bool" where
  "resume_request s =
     (let wasPaused = (paused s \<or> producerPaused s) in
      ([LoggerDebug ''resume()'',
        ChannelRequest ''consumer.resume'' (internal s) JUndefined], wasPaused))"

definition resume_settled :: "bool \<Rightarrow> consumer \<Rightarrow> response \<Rightarrow> unit outcome" where
  "resume_settled wasPaused s r =
     (case r of
        Rejected e \<Rightarrow> ([], Inl e, s)
      | Resolved d \<Rightarrow>
          (let s1 = s\<lparr>paused := False\<rparr> in
           ((if wasPaused \<and> \<not> producerPaused s1 then [ObserverSafeEmit ''resume'' []] else []),
            Inr (), s1)))"

definition resume :: "consumer \<Rightarrow> response \<Rightarrow> unit outcome" where
  "resume = await_response resume_request resume_settled"

text \<open>
  \<^verbatim>\<open>setPreferredLayers({ spatialLayer, temporalLayer })\<close>: the two arguments are the
  destructured members of the parameter.
\<close>

definition setPreferredLayers_request :: "js \<Rightarrow> js \<Rightarrow> consumer \<Rightarrow> effect list \<times> unit" where
  "setPreferredLayers_request spatialLayer temporalLayer s =
     (let reqData = JObj [(''spatialLayer'', spatialLayer), (''temporalLayer'', temporalLayer)] in
      ([LoggerDebug ''setPreferredLayers()'',
        ChannelRequest ''consumer.setPreferredLayers'' (internal s) reqData], ()))"

definition setPreferredLayers_settled :: "unit \<Rightarrow> consumer \<Rightarrow> response \<Rightarrow> unit outcome" where
  "setPreferredLayers_settled u s r =
     (case r of
        Rejected e \<Rightarrow> ([], Inl e, s)
      | Resolved d \<Rightarrow>
          ([], Inr (), s\<lparr>preferredLayers := (if truthy d then d else JUndefined)\<rparr>))"

definition setPreferredLayers :: "js \<Rightarrow> js \<Rightarrow> consumer \<Rightarrow> response \<Rightarrow> unit outcome" where
  "setPreferredLayers spatialLayer temporalLayer =
     await_response (setPreferredLayers_request spatialLayer temporalLayer)
       setPreferredLayers_settled"

text \<open>
  \<^verbatim>\<open>setPriority(priority)\<close> and \<^verbatim>\<open>unsetPriority()\<close>: the field takes
  \<^verbatim>\<open>data.priority\<close> of the response; reading it throws when the response carries no
  data.
\<close>

definition setPriority_request :: "int \<Rightarrow> consumer \<Rightarrow> effect list \<times> unit" where
  "setPriority_request n s =
     (let reqData = JObj [(''priority'', JNum n)] in
      ([LoggerDebug ''setPriority()'',
        ChannelRequest ''consumer.setPriority'' (internal s) reqData], ()))"

definition setPriority_settled :: "unit \<Rightarrow> consumer \<Rightarrow> response \<Rightarrow> unit outcome" where
  "setPriority_settled u s r =
     (case r of
        Rejected e \<Rightarrow> ([], Inl e, s)
      | Resolved d \<Rightarrow>
          (case js_get d ''priority'' of
             Inl e \<Rightarrow> ([], Inl e, s)
           | Inr p \<Rightarrow> ([], Inr (), s\<lparr>priority := p\<rparr>)))"

definition setPriority :: "int \<Rightarrow> consumer \<Rightarrow> response \<Rightarrow> unit outcome" where
  "setPriority n = await_response (setPriority_request n) setPriority_settled"

definition unsetPriority_request :: "consumer \<Rightarrow> effect list \<times> unit" where
  "unsetPriority_request s =
     (let reqData = JObj [(''priority'', JNum 1)] in
      ([LoggerDebug ''unsetPriority()'',
        ChannelRequest ''consumer.setPriority'' (internal s) reqData], ()))"

definition unsetPriority_settled :: "unit \<Rightarrow> consumer \<Rightarrow> response \<Rightarrow> unit outcome" where
  "unsetPriority_settled u s r =
     (case r of
        Rejected e \<Rightarrow> ([], Inl e, s)
      | Resolved d \<Rightarrow>
          (case js_get d ''priority'' of
             Inl e \<Rightarrow> ([], Inl e, s)
           | Inr p \<Rightarrow> ([], Inr (), s\<lparr>priority := p\<rparr>)))"

definition unsetPriority :: "consumer \<Rightarrow> response \<Rightarrow> unit outcome" where
  "unsetPriority = await_response unsetPriority_request unsetPriority_settled"

definition requestKeyFrame_request :: "consumer \<Rightarrow> effect list \<times> unit" where
  "requestKeyFrame_request s =
     ([LoggerDebug ''requestKeyFrame()'',
       ChannelRequest ''consumer.requestKeyFrame'' (internal s) JUndefined], ())"

definition requestKeyFrame_settled :: "unit \<Rightarrow> consumer \<Rightarrow> response \<Rightarrow> unit outcome" where
  "requestKeyFrame_settled u s r =
     (case r of Rejected e \<Rightarrow> ([], Inl e, s) | Resolved d \<Rightarrow> ([], Inr (), s))"

definition requestKeyFrame :: "consumer \<Rightarrow> response \<Rightarrow> unit outcome" where
  "requestKeyFrame = await_response requestKeyFrame_request requestKeyFrame_settled"

text \<open>\<^verbatim>\<open>enableTraceEvent(types = [])\<close>: the default is used for \<^verbatim>\<open>undefined\<close>.\<close>

definition enableTraceEvent_request :: "js \<Rightarrow> consumer \<Rightarrow> effect list \<times> unit" where
  "enableTraceEvent_request types s =
     (let reqData = JObj [(''types'', (if types = JUndefined then JArr [] else types))] in
      ([LoggerDebug ''enableTraceEvent()'',
        ChannelRequest ''consumer.enableTraceEvent'' (internal s) reqData], ()))"

definition enableTraceEvent_settled :: "unit \<Rightarrow> consumer \<Rightarrow> response \<Rightarrow> unit outcome" where
  "enableTraceEvent_settled u s r =
     (case r of Rejected e \<Rightarrow> ([], Inl e, s) | Resolved d \<Rightarrow> ([], Inr (), s))"

definition enableTraceEvent :: "js \<Rightarrow> consumer \<Rightarrow> response \<Rightarrow> unit outcome" where
  "enableTraceEvent types = await_response (enableTraceEvent_request types) enableTraceEvent_settled"

subsection \<open>Notification handlers\<close>

text \<open>
  The listener registered on the channel: a \<^verbatim>\<open>switch\<close> on the event name.
  \<^verbatim>\<open>@producerclose\<close> goes out with a plain \<^verbatim>\<open>emit\<close>: the last argument is
  what its listeners do, and when one throws, the listener ends there with that error.
\<close>

definition unknown_event_message :: string where
  "unknown_event_message = ''ignoring unknown event '' @ [CHR 0x22] @ ''%s'' @ [CHR 0x22]"

definition channel_listener ::
  "consumer \<Rightarrow> string \<Rightarrow> js \<Rightarrow> listeners \<Rightarrow> effect list \<times> (error + unit) \<times> consumer" where
  "channel_listener s event d l =
     (if event = ''producerclose'' then
        (if closed s then ([], Inr (), s)
         else
           (let s1 = s\<lparr>closed := True\<rparr> in
            (case l of
               Throw e \<Rightarrow>
                 ([ChannelRemoveAllListeners (consumerId (internal s1)),
                   Emit ''@producerclose'' []], Inl e, s1)
             | Return \<Rightarrow>
                 ([ChannelRemoveAllListeners (consumerId (internal s1)),
                   Emit ''@producerclose'' [],
                   SafeEmit ''producerclose'' [],
                   ObserverSafeEmit ''close'' []], Inr (), s1))))
      else if event = ''producerpause'' then
        (if producerPaused s then ([], Inr (), s)
         else
           (let wasPaused = (paused s \<or> producerPaused s);
                s1 = s\<lparr>producerPaused := True\<rparr> in
            (SafeEmit ''producerpause'' []
             # (if \<not> wasPaused then [ObserverSafeEmit ''pause'' []] else []), Inr (), s1)))
      else if event = ''producerresume'' then
        (if \<not> producerPaused s then ([], Inr (), s)
         else
           (let wasPaused = (paused s \<or> producerPaused s);
                s1 = s\<lparr>producerPaused := False\<rparr> in
            (SafeEmit ''producerresume'' []
             # (if wasPaused \<and> \<not> paused s1 then [ObserverSafeEmit ''resume'' []] else []),
             Inr (), s1)))
      else if event = ''score'' then
        (let s1 = s\<lparr>score := d\<rparr> in
         ([SafeEmit ''score'' [d], ObserverSafeEmit ''score'' [d]], Inr (), s1))
      else if event = ''layerschange'' then
        (let s1 = s\<lparr>currentLayers := d\<rparr> in
         ([SafeEmit ''layerschange'' [d], ObserverSafeEmit ''layerschange'' [d]], Inr (), s1))
      else if event = ''trace'' then
        ([SafeEmit ''trace'' [d], ObserverSafeEmit ''trace'' [d]], Inr (), s)
      else
        ([LoggerError unknown_event_message [JStr event]], Inr (), s))"

text \<open>The listener registered on the payload channel.\<close>

definition payloadChannel_listener ::
  "consumer \<Rightarrow> string \<Rightarrow> js \<Rightarrow> 8 word list \<Rightarrow> effect list \<times> consumer" where
  "payloadChannel_listener s event d payload =
     (if event = ''rtp'' then
        (if closed s then ([], s)
         else
           (let packet = JBuffer payload in
            ([SafeEmit ''rtp'' [packet]], s)))
      else
        ([LoggerError unknown_event_message [JStr event]], s))"

subsection \<open>Histories\<close>

text \<open>
  Everything that can happen to a Consumer after its construction: a call of a public
  method (with the way its request settles and, for a plain \<^verbatim>\<open>emit\<close>, what the
  listeners do) or a notification handed to one of the two listeners. \<open>step\<close> gives the trace and the next state, \<open>run\<close> a whole history.
\<close>

datatype action =
    Close response listeners
  | TransportClosed
  | Dump response
  | GetStats response
  | Pause response
  | Resume response
  | SetPreferredLayers js js response
  | SetPriority int response
  | UnsetPriority response
  | RequestKeyFrame response
  | EnableTraceEvent js response
  | SetAppData js
  | Notification string js listeners
  | PayloadNotification string js "8 word list"

fun step :: "consumer \<Rightarrow> action \<Rightarrow> effect list \<times> consumer" where
  "step s (Close r l) = (case close s r l of (es, res, s') \<Rightarrow> (es, s'))"
| "step s TransportClosed = transportClosed s"
| "step s (Dump r) = (case dump s r of (es, res, s') \<Rightarrow> (es, s'))"
| "step s (GetStats r) = (case getStats s r of (es, res, s') \<Rightarrow> (es, s'))"
| "step s (Pause r) = (case pause s r of (es, res, s') \<Rightarrow> (es, s'))"
| "step s (Resume r) = (case resume s r of (es, res, s') \<Rightarrow> (es, s'))"
| "step s (SetPreferredLayers spatialLayer temporalLayer r) =
     (case setPreferredLayers spatialLayer temporalLayer s r of (es, res, s') \<Rightarrow> (es, s'))"
| "step s (SetPriority n r) = (case setPriority n s r of (es, res, s') \<Rightarrow> (es, s'))"
| "step s (UnsetPriority r) = (case unsetPriority s r of (es, res, s') \<Rightarrow> (es, s'))"
| "step s (RequestKeyFrame r) = (case requestKeyFrame s r of (es, res, s') \<Rightarrow> (es, s'))"
| "step s (EnableTraceEvent types r) = (case enableTraceEvent types s r of (es, res, s') \<Rightarrow> (es, s'))"
| "step s (SetAppData v) = ([], snd (set_appData s v))"
| "step s (Notification event d l) =
     (case channel_listener s event d l of (es, res, s') \<Rightarrow> (es, s'))"
| "step s (PayloadNotification event d payload) = payloadChannel_listener s event d payload"

fun run :: "consumer \<Rightarrow> action list \<Rightarrow> effect list \<times> consumer" where
  "run s [] = ([], s)"
| "run s (a # as) =
     (case step s a of (es, s') \<Rightarrow> (case run s' as of (es', s'') \<Rightarrow> (es @ es', s'')))"



subsection \<open>A concrete Consumer\<close>

text \<open>
  A Consumer as its transport creates it, the same Consumer after its transport was
  closed, and the same Consumer while its producer is paused; the closed examples below are
  evaluated on them.
\<close>

definition sample_args :: consumer_args where
  "sample_args =
     \<lparr> arg_internal = \<lparr> routerId = ''r1'', transportId = ''t1'', consumerId = ''c1'',
                        producerId = ''p1'' \<rparr>,
       arg_data = JObj [(''kind'', JStr ''video''), (''type'', JStr ''simple'')],
       arg_appData = JObj [(''tag'', JNum 7)],
       arg_paused = False,
       arg_producerPaused = False,
       arg_score = JUndefined,
       arg_preferredLayers = JUndefined \<rparr>"

definition sample_consumer :: consumer where
  "sample_consumer = snd (new_consumer sample_args)"

definition sample_closed_consumer :: consumer where
  "sample_closed_consumer = snd (transportClosed sample_consumer)"


section \<open>Properties\<close>

subsection \<open>Unfolding the operations\<close>

lemma await_response_simps:
  "await_response call settled s r =
     (fst (call s) @ fst (settled (snd (call s)) s r),
      fst (snd (settled (snd (call s)) s r)),
      snd (snd (settled (snd (call s)) s r)))"
  by (simp add: await_response_def split: prod.splits)

lemmas async_defs = await_response_simps
  dump_def dump_request_def dump_settled_def
  getStats_def getStats_request_def getStats_settled_def
  pause_def pause_request_def pause_settled_def
  resume_def resume_request_def resume_settled_def
  setPreferredLayers_def setPreferredLayers_request_def setPreferredLayers_settled_def
  setPriority_def setPriority_request_def setPriority_settled_def
  unsetPriority_def unsetPriority_request_def unsetPriority_settled_def
  requestKeyFrame_def requestKeyFrame_request_def requestKeyFrame_settled_def
  enableTraceEvent_def enableTraceEvent_request_def enableTraceEvent_settled_def

lemmas sync_defs = close_def transportClosed_def set_appData_def
  channel_listener_def payloadChannel_listener_def

lemmas sample_defs = sample_args_def sample_consumer_def sample_closed_consumer_def
  new_consumer_def transportClosed_def handleWorkerNotifications_def

lemma sample_consumer_open: "\<not> closed sample_consumer"
  by (simp add: sample_defs)

lemma sample_closed_consumer_closed: "closed sample_closed_consumer"
  by (simp add: sample_defs)

lemma run_Cons:
  "run s (a # as) =
     (fst (step s a) @ fst (run (snd (step s a)) as), snd (run (snd (step s a)) as))"
  by (simp split: prod.splits)

lemma run_two:
  "run s [a, b] =
     (fst (step s a) @ fst (step (snd (step s a)) b), snd (step (snd (step s a)) b))"
  by (simp split: prod.splits)

lemma step_Close: "step s (Close r l) = (fst (close s r l), snd (snd (close s r l)))"
  by (simp split: prod.splits)

lemma observer_events_append:
  "observer_events (es @ es') = observer_events es @ observer_events es'"
  by (induction es rule: observer_events.induct) simp_all

subsection \<open>Pause and resume\<close>



subsection \<open>Operations on a closed Consumer\<close>

text \<open>
  C2, as stated, fails. On the Consumer whose transport was closed, \<^verbatim>\<open>pause()\<close>
  places the request \<^verbatim>\<open>consumer.pause\<close> on the channel as soon as it is called
  and, when the worker answers, resolves and sets the paused flag: no invalid-state
  failure.
\<close>

theorem closed_consumer_pause_places_request:
  "closed sample_closed_consumer
   \<and> fst (pause_request sample_closed_consumer) =
       [LoggerDebug ''pause()'',
        ChannelRequest ''consumer.pause'' (internal sample_closed_consumer) JUndefined]
   \<and> requests (fst (pause sample_closed_consumer (Resolved JUndefined))) = [''consumer.pause'']
   \<and> fst (snd (pause sample_closed_consumer (Resolved JUndefined))) = Inr ()
   \<and> paused (snd (snd (pause sample_closed_consumer (Resolved JUndefined))))"
  by (simp add: sample_defs async_defs)

text \<open>
  C2, amended. For every Consumer, whatever its closed flag, each of \<^verbatim>\<open>pause()\<close>,
  \<^verbatim>\<open>resume()\<close>, \<^verbatim>\<open>setPriority()\<close>, \<^verbatim>\<open>setPreferredLayers()\<close>,
  \<^verbatim>\<open>requestKeyFrame()\<close>, \<^verbatim>\<open>dump()\<close> and \<^verbatim>\<open>getStats()\<close> places exactly one
  request on the channel, and its result is the one it has on the same Consumer with the
  flag cleared: the methods do not look at the flag, and fail when the request fails.
\<close>

theorem requests_placed_whatever_closed:
  "requests (fst (pause s r)) = [''consumer.pause'']
   \<and> requests (fst (resume s r)) = [''consumer.resume'']
   \<and> requests (fst (setPriority n s r)) = [''consumer.setPriority'']
   \<and> requests (fst (setPreferredLayers spatialLayer temporalLayer s r)) =
       [''consumer.setPreferredLayers'']
   \<and> requests (fst (requestKeyFrame s r)) = [''consumer.requestKeyFrame'']
   \<and> requests (fst (dump s r)) = [''consumer.dump'']
   \<and> requests (fst (getStats s r)) = [''consumer.getStats'']
   \<and> fst (snd (pause (s\<lparr>closed := True\<rparr>) r)) = fst (snd (pause (s\<lparr>closed := False\<rparr>) r))
   \<and> fst (snd (resume (s\<lparr>closed := True\<rparr>) r)) = fst (snd (resume (s\<lparr>closed := False\<rparr>) r))
   \<and> fst (snd (setPriority n (s\<lparr>closed := True\<rparr>) r)) =
       fst (snd (setPriority n (s\<lparr>closed := False\<rparr>) r))
   \<and> fst (snd (setPreferredLayers spatialLayer temporalLayer (s\<lparr>closed := True\<rparr>) r)) =
       fst (snd (setPreferredLayers spatialLayer temporalLayer (s\<lparr>closed := False\<rparr>) r))
   \<and> fst (snd (requestKeyFrame (s\<lparr>closed := True\<rparr>) r)) =
       fst (snd (requestKeyFrame (s\<lparr>closed := False\<rparr>) r))
   \<and> fst (snd (dump (s\<lparr>closed := True\<rparr>) r)) = fst (snd (dump (s\<lparr>closed := False\<rparr>) r))
   \<and> fst (snd (getStats (s\<lparr>closed := True\<rparr>) r)) = fst (snd (getStats (s\<lparr>closed := False\<rparr>) r))
   \<and> fst (snd (pause s (Rejected e))) = Inl e
   \<and> fst (snd (resume s (Rejected e))) = Inl e
   \<and> fst (snd (setPriority n s (Rejected e))) = Inl e
   \<and> fst (snd (setPreferredLayers spatialLayer temporalLayer s (Rejected e))) = Inl e
   \<and> fst (snd (requestKeyFrame s (Rejected e))) = Inl e
   \<and> fst (snd (dump s (Rejected e))) = Inl e
   \<and> fst (snd (getStats s (Rejected e))) = Inl e"
proof -
  have placed:
    "requests (fst (pause s r)) = [''consumer.pause'']
     \<and> requests (fst (resume s r)) = [''consumer.resume'']
     \<and> requests (fst (setPriority n s r)) = [''consumer.setPriority'']
     \<and> requests (fst (setPreferredLayers spatialLayer temporalLayer s r)) =
         [''consumer.setPreferredLayers'']
     \<and> requests (fst (requestKeyFrame s r)) = [''consumer.requestKeyFrame'']
     \<and> requests (fst (dump s r)) = [''consumer.dump'']
     \<and> requests (fst (getStats s r)) = [''consumer.getStats'']"
    by (cases r) (simp_all add: async_defs Let_def split: sum.splits)
  have same:
    "fst (snd (pause (s\<lparr>closed := True\<rparr>) r)) = fst (snd (pause (s\<lparr>closed := False\<rparr>) r))
     \<and> fst (snd (resume (s\<lparr>closed := True\<rparr>) r)) = fst (snd (resume (s\<lparr>closed := False\<rparr>) r))
     \<and> fst (snd (setPriority n (s\<lparr>closed := True\<rparr>) r)) =
         fst (snd (setPriority n (s\<lparr>closed := False\<rparr>) r))
     \<and> fst (snd (setPreferredLayers spatialLayer temporalLayer (s\<lparr>closed := True\<rparr>) r)) =
         fst (snd (setPreferredLayers spatialLayer temporalLayer (s\<lparr>closed := False\<rparr>) r))
     \<and> fst (snd (requestKeyFrame (s\<lparr>closed := True\<rparr>) r)) =
         fst (snd (requestKeyFrame (s\<lparr>closed := False\<rparr>) r))
     \<and> fst (snd (dump (s\<lparr>closed := True\<rparr>) r)) = fst (snd (dump (s\<lparr>closed := False\<rparr>) r))
     \<and> fst (snd (getStats (s\<lparr>closed := True\<rparr>) r)) =
         fst (snd (getStats (s\<lparr>closed := False\<rparr>) r))"
    by (cases r) (simp_all add: async_defs Let_def split: sum.splits)
  have failed:
    "fst (snd (pause s (Rejected e))) = Inl e
     \<and> fst (snd (resume s (Rejected e))) = Inl e
     \<and> fst (snd (setPriority n s (Rejected e))) = Inl e
     \<and> fst (snd (setPreferredLayers spatialLayer temporalLayer s (Rejected e))) = Inl e
     \<and> fst (snd (requestKeyFrame s (Rejected e))) = Inl e
     \<and> fst (snd (dump s (Rejected e))) = Inl e
     \<and> fst (snd (getStats s (Rejected e))) = Inl e"
    by (simp add: async_defs Let_def)
  from placed same failed show ?thesis by blast
qed

subsection \<open>Closing\<close>

text \<open>
  C3, as stated, fails in two ways. On the Consumer whose transport was closed, two calls
  of \<^verbatim>\<open>close()\<close> give the observer no \<^verbatim>\<open>close\<close> event and place no request.
  And on the sample Consumer, not closed, with an \<^verbatim>\<open>@close\<close> listener that throws,
  the first call fails with the listener's error, and the two calls give the observer no
  \<^verbatim>\<open>close\<close> event, although the flag is set and the request placed.
\<close>

theorem close_twice_on_closed_consumer:
  "closed sample_closed_consumer
   \<and> observer_events (fst (run sample_closed_consumer
        [Close (Resolved JUndefined) Return, Close (Resolved JUndefined) Return])) = []
   \<and> requests (fst (run sample_closed_consumer
        [Close (Resolved JUndefined) Return, Close (Resolved JUndefined) Return])) = []
   \<and> local_events (fst (run sample_closed_consumer
        [Close (Resolved JUndefined) Return, Close (Resolved JUndefined) Return])) = []
   \<and> \<not> closed sample_consumer
   \<and> fst (snd (close sample_consumer (Resolved JUndefined) (Throw (Error ''listener failed'')))) =
       Inl (Error ''listener failed'')
   \<and> closed (snd (snd (close sample_consumer (Resolved JUndefined)
        (Throw (Error ''listener failed'')))))
   \<and> observer_events (fst (run sample_consumer
        [Close (Resolved JUndefined) (Throw (Error ''listener failed'')),
         Close (Resolved JUndefined) Return])) = []
   \<and> requests (fst (run sample_consumer
        [Close (Resolved JUndefined) (Throw (Error ''listener failed'')),
         Close (Resolved JUndefined) Return])) = [''consumer.close'']"
  by (simp add: sample_defs close_def)

text \<open>
  C3, amended. For every Consumer that is not closed, however the close requests would
  settle and whatever the \<^verbatim>\<open>@close\<close> listeners do, two calls of \<^verbatim>\<open>close()\<close>
  place exactly one \<^verbatim>\<open>consumer.close\<close> request; the first call sets the closed flag
  and changes nothing else, removes the channel listeners of the consumer id and emits
  \<^verbatim>\<open>@close\<close>; the second call does nothing. When the \<^verbatim>\<open>@close\<close> listeners
  return, the first call returns normally, also when its request is rejected (a rejected
  request leaves the same trace, result and state as an answered one), and the two calls
  give the observer exactly one \<^verbatim>\<open>close\<close> event. When an \<^verbatim>\<open>@close\<close>
  listener throws, the first call fails with that error and the observer hears nothing.
\<close>

theorem close_twice_once:
  assumes "\<not> closed s"
  shows "requests (fst (run s [Close r1 l1, Close r2 l2])) = [''consumer.close'']
   \<and> snd (snd (close s r1 l1)) = s\<lparr>closed := True\<rparr>
   \<and> ChannelRemoveAllListeners (consumerId (internal s)) \<in> set (fst (close s r1 l1))
   \<and> local_events (fst (close s r1 l1)) = [''@close'']
   \<and> close (snd (snd (close s r1 l1))) r2 l2 = ([], Inr (), snd (snd (close s r1 l1)))
   \<and> close s (Rejected e) l1 = close s (Resolved d) l1
   \<and> fst (snd (close s r1 Return)) = Inr ()
   \<and> observer_events (fst (close s r1 Return)) = [''close'']
   \<and> observer_events (fst (run s [Close r1 Return, Close r2 l2])) = [''close'']
   \<and> fst (snd (close s r1 (Throw e'))) = Inl e'
   \<and> observer_events (fst (run s [Close r1 (Throw e'), Close r2 l2])) = []"
proof -
  have first:
    "snd (snd (close s r1 l1)) = s\<lparr>closed := True\<rparr>
     \<and> ChannelRemoveAllListeners (consumerId (internal s)) \<in> set (fst (close s r1 l1))
     \<and> local_events (fst (close s r1 l1)) = [''@close'']
     \<and> requests (fst (close s r1 l1)) = [''consumer.close'']"
    using assms by (cases r1; cases l1) (simp_all add: close_def Let_def)
  have second: "close (s\<lparr>closed := True\<rparr>) r2 l2 = ([], Inr (), s\<lparr>closed := True\<rparr>)"
    by (simp add: close_def)
  have swallowed: "close s (Rejected e) l1 = close s (Resolved d) l1"
    by (cases l1) (simp_all add: close_def Let_def)
  have returning:
    "fst (snd (close s r1 Return)) = Inr ()
     \<and> observer_events (fst (close s r1 Return)) = [''close'']
     \<and> snd (snd (close s r1 Return)) = s\<lparr>closed := True\<rparr>"
    using assms by (cases r1) (simp_all add: close_def Let_def)
  have throwing:
    "fst (snd (close s r1 (Throw e'))) = Inl e'
     \<and> observer_events (fst (close s r1 (Throw e'))) = []
     \<and> snd (snd (close s r1 (Throw e'))) = s\<lparr>closed := True\<rparr>"
    using assms by (cases r1) (simp_all add: close_def Let_def)
  have requests_twice:
    "requests (fst (run s [Close r1 l1, Close r2 l2])) = [''consumer.close'']"
    using first second by (simp add: run_two step_Close del: run.simps step.simps)
  have observer_returning:
    "observer_events (fst (run s [Close r1 Return, Close r2 l2])) = [''close'']"
    using returning second by (simp add: run_two step_Close del: run.simps step.simps)
  have observer_throwing:
    "observer_events (fst (run s [Close r1 (Throw e'), Close r2 l2])) = []"
    using throwing second by (simp add: run_two step_Close del: run.simps step.simps)
  from first second swallowed returning throwing requests_twice observer_returning
    observer_throwing
  show ?thesis by simp
qed

theorem close_twice_once_witness:
  "\<not> closed sample_consumer
   \<and> observer_events (fst (run sample_consumer
        [Close (Rejected (Error ''request failed'')) Return,
         Close (Resolved JUndefined) Return])) = [''close'']
   \<and> requests (fst (run sample_consumer
        [Close (Rejected (Error ''request failed'')) Return,
         Close (Resolved JUndefined) Return])) = [''consumer.close'']
   \<and> fst (snd (close sample_consumer (Rejected (Error ''request failed'')) Return)) = Inr ()"
proof -
  have h: "\<not> closed sample_consumer" by (rule sample_consumer_open)
  from h close_twice_once [OF h, of "Rejected (Error ''request failed'')" Return
      "Resolved JUndefined" Return]
  show ?thesis by blast
qed

text \<open>
  C4. \<^verbatim>\<open>transportClosed()\<close> never places a request and never emits \<^verbatim>\<open>close\<close> to
  the local listeners. On a Consumer that is not closed it emits \<^verbatim>\<open>transportclose\<close>
  and nothing else to the local listeners, sets the closed flag and changes nothing else,
  removes the channel listeners of the consumer id and gives the observer one
  \<^verbatim>\<open>close\<close> event; on a closed Consumer it does nothing.
\<close>

theorem transportClosed_local_only:
  "requests (fst (transportClosed s)) = []
   \<and> ''close'' \<notin> set (local_events (fst (transportClosed s)))
   \<and> (if closed s then transportClosed s = ([], s)
       else local_events (fst (transportClosed s)) = [''transportclose'']
          \<and> observer_events (fst (transportClosed s)) = [''close'']
          \<and> ChannelRemoveAllListeners (consumerId (internal s)) \<in> set (fst (transportClosed s))
          \<and> snd (transportClosed s) = s\<lparr>closed := True\<rparr>)"
  by (simp add: transportClosed_def Let_def)

text \<open>Once closed, always closed; and only the step that closes tells the observer.\<close>

lemma step_closed_mono: "closed s \<Longrightarrow> closed (snd (step s a))"
  by (cases a)
    (auto simp: async_defs sync_defs Let_def
      split: response.splits sum.splits listeners.splits)

lemma step_close_events:
  "count_list (observer_events (fst (step s a))) ''close'' \<le>
     (if closed s then 0 else 1)"
  by (cases a)
    (auto simp: async_defs sync_defs Let_def
      split: response.splits sum.splits listeners.splits)

lemma run_closed_mono: "closed s \<Longrightarrow> closed (snd (run s as))"
  by (induction as arbitrary: s)
    (simp_all only: run.simps(1) run_Cons snd_conv step_closed_mono)

lemma step_close_events_closes:
  "count_list (observer_events (fst (step s a))) ''close'' = 1 \<Longrightarrow> closed (snd (step s a))"
  by (cases a)
    (auto simp: async_defs sync_defs Let_def
      split: response.splits sum.splits listeners.splits if_splits)

lemma run_close_events:
  "count_list (observer_events (fst (run s as))) ''close'' \<le>
     (if closed s then 0 else 1)"
proof (induction as arbitrary: s)
  case Nil
  show ?case by simp
next
  case (Cons a as)
  let ?s1 = "snd (step s a)"
  let ?here = "count_list (observer_events (fst (step s a))) ''close''"
  let ?later = "count_list (observer_events (fst (run ?s1 as))) ''close''"
  have parts: "count_list (observer_events (fst (run s (a # as)))) ''close'' = ?here + ?later"
    by (simp only: run_Cons fst_conv observer_events_append count_list_append)
  have here: "?here \<le> (if closed s then 0 else 1)"
    by (rule step_close_events)
  have later: "?later \<le> (if closed ?s1 then 0 else 1)"
    by (rule Cons.IH)
  show ?case
  proof (cases "closed s")
    case True
    then have "closed ?s1" by (rule step_closed_mono)
    with True here later parts show ?thesis by simp
  next
    case False
    show ?thesis
    proof (cases "?here = 1")
      case True
      then have "closed ?s1" by (rule step_close_events_closes)
      with later have "?later = 0" by simp
      with True False parts show ?thesis by simp
    next
      case no_event: False
      with False here have "?here = 0" by simp
      moreover from later have "?later \<le> 1" by (simp split: if_splits)
      ultimately show ?thesis using False parts by simp
    qed
  qed
qed

text \<open>
  C5. On a closed Consumer a \<^verbatim>\<open>producerclose\<close> notification leaves an empty trace
  (no event, no log, no request) and the state as it was, and the listener returns. And in
  every history of method calls and notifications, whatever the listeners of
  \<^verbatim>\<open>@close\<close> and \<^verbatim>\<open>@producerclose\<close> do, from every state, the observer hears
  \<^verbatim>\<open>close\<close> at most once; from a closed state it never hears it, and the Consumer
  stays closed.
\<close>

theorem producerclose_after_close_silent:
  "count_list (observer_events (fst (run s as))) ''close'' \<le> 1
   \<and> (closed s \<longrightarrow>
        channel_listener s ''producerclose'' d l = ([], Inr (), s)
        \<and> closed (snd (run s as))
        \<and> count_list (observer_events (fst (run s as))) ''close'' = 0)"
proof -
  have "count_list (observer_events (fst (run s as))) ''close'' \<le> (if closed s then 0 else 1)"
    by (rule run_close_events)
  then have count:
    "count_list (observer_events (fst (run s as))) ''close'' \<le> 1
     \<and> (closed s \<longrightarrow> count_list (observer_events (fst (run s as))) ''close'' = 0)"
    by (simp split: if_splits)
  have silent: "closed s \<longrightarrow> channel_listener s ''producerclose'' d l = ([], Inr (), s)"
    by (simp add: channel_listener_def)
  from count silent show ?thesis by (simp add: run_closed_mono)
qed

theorem producerclose_after_close_silent_witness:
  "closed sample_closed_consumer
   \<and> channel_listener sample_closed_consumer ''producerclose'' JUndefined Return =
       ([], Inr (), sample_closed_consumer)
   \<and> count_list (observer_events (fst (run sample_closed_consumer
        [Notification ''producerclose'' JUndefined Return, Close (Resolved JUndefined) Return,
         TransportClosed]))) ''close'' = 0"
proof -
  have h: "closed sample_closed_consumer" by (rule sample_closed_consumer_closed)
  from h producerclose_after_close_silent [of sample_closed_consumer
      "[Notification ''producerclose'' JUndefined Return, Close (Resolved JUndefined) Return,
        TransportClosed]" JUndefined Return]
  show ?thesis by blast
qed

subsection \<open>Failed requests\<close>

text \<open>
  C6. When the request of \<^verbatim>\<open>pause()\<close>, \<^verbatim>\<open>resume()\<close>, \<^verbatim>\<open>setPriority()\<close>,
  \<^verbatim>\<open>unsetPriority()\<close> or \<^verbatim>\<open>setPreferredLayers()\<close> is rejected, the call fails with
  the rejection, the state is the state before the call (every field), and the observer
  hears nothing. The continuation after a rejected request does nothing to the state it
  finds (\<open>s'\<close>), so this also holds when notifications were handled while the request
  was pending.
\<close>

theorem request_failure_leaves_state:
  "fst (snd (pause s (Rejected e))) = Inl e
     \<and> snd (snd (pause s (Rejected e))) = s
     \<and> observer_events (fst (pause s (Rejected e))) = []
   \<and> fst (snd (resume s (Rejected e))) = Inl e
     \<and> snd (snd (resume s (Rejected e))) = s
     \<and> observer_events (fst (resume s (Rejected e))) = []
   \<and> fst (snd (setPriority n s (Rejected e))) = Inl e
     \<and> snd (snd (setPriority n s (Rejected e))) = s
     \<and> observer_events (fst (setPriority n s (Rejected e))) = []
   \<and> fst (snd (unsetPriority s (Rejected e))) = Inl e
     \<and> snd (snd (unsetPriority s (Rejected e))) = s
     \<and> observer_events (fst (unsetPriority s (Rejected e))) = []
   \<and> fst (snd (setPreferredLayers spatialLayer temporalLayer s (Rejected e))) = Inl e
     \<and> snd (snd (setPreferredLayers spatialLayer temporalLayer s (Rejected e))) = s
     \<and> observer_events (fst (setPreferredLayers spatialLayer temporalLayer s (Rejected e))) = []
   \<and> pause_settled wasPaused s' (Rejected e) = ([], Inl e, s')
   \<and> resume_settled wasPaused s' (Rejected e) = ([], Inl e, s')
   \<and> setPriority_settled () s' (Rejected e) = ([], Inl e, s')
   \<and> unsetPriority_settled () s' (Rejected e) = ([], Inl e, s')
   \<and> setPreferredLayers_settled () s' (Rejected e) = ([], Inl e, s')"
  by (simp add: async_defs Let_def)

subsection \<open>Binary payloads\<close>

text \<open>
  C7. An \<^verbatim>\<open>rtp\<close> notification of the payload channel is emitted again to the local
  listeners as \<^verbatim>\<open>rtp\<close> with its payload while the Consumer is not closed; on a closed
  Consumer it leaves an empty trace. Either way the state is unchanged and the listener
  returns.
\<close>

theorem rtp_forwarded_until_closed:
  "payloadChannel_listener s ''rtp'' d payload =
     (if closed s then ([], s) else ([SafeEmit ''rtp'' [JBuffer payload]], s))"
  by (simp add: payloadChannel_listener_def)

subsection \<open>Priority\<close>

text \<open>
  C8. However the request settles, \<^verbatim>\<open>setPriority(n)\<close> places one request
  \<^verbatim>\<open>consumer.setPriority\<close> with the data \<^verbatim>\<open>{ priority: n }\<close> and
  \<^verbatim>\<open>unsetPriority()\<close> one with \<^verbatim>\<open>{ priority: 1 }\<close>. When the response is an
  object whose \<^verbatim>\<open>priority\<close> is \<open>p\<close>, both calls succeed and set the priority
  field to \<open>p\<close>, whatever was requested, and change no other field.
\<close>

theorem priority_from_response:
  "fst (setPriority n s r) =
     [LoggerDebug ''setPriority()'',
      ChannelRequest ''consumer.setPriority'' (internal s) (JObj [(''priority'', JNum n)])]
   \<and> fst (unsetPriority s r) =
     [LoggerDebug ''unsetPriority()'',
      ChannelRequest ''consumer.setPriority'' (internal s) (JObj [(''priority'', JNum 1)])]
   \<and> (map_of kvs ''priority'' = Some p \<longrightarrow>
        snd (setPriority n s (Resolved (JObj kvs))) = (Inr (), s\<lparr>priority := p\<rparr>)
        \<and> snd (unsetPriority s (Resolved (JObj kvs))) = (Inr (), s\<lparr>priority := p\<rparr>))"
  by (cases r) (auto simp add: async_defs Let_def split: sum.splits)

theorem priority_from_response_witness:
  "map_of [(''priority'', JNum 3)] ''priority'' = Some (JNum 3)
   \<and> priority (snd (snd (setPriority 5 sample_consumer
        (Resolved (JObj [(''priority'', JNum 3)]))))) = JNum 3
   \<and> priority (snd (snd (unsetPriority sample_consumer
        (Resolved (JObj [(''priority'', JNum 3)]))))) = JNum 3"
proof -
  have h: "map_of [(''priority'', JNum 3)] ''priority'' = Some (JNum 3)" by simp
  from h priority_from_response [of 5 sample_consumer "Resolved JUndefined"
      "[(''priority'', JNum 3)]" "JNum 3"]
  show ?thesis by simp
qed

subsection \<open>Redundant notifications of the producer\<close>

text \<open>
  C9. A \<^verbatim>\<open>producerpause\<close> notification on a Consumer whose producerPaused flag is
  set, and a \<^verbatim>\<open>producerresume\<close> notification on one whose flag is clear, leave an
  empty trace (no local event, no observer event) and the state as it was. So a second
  delivery of the same notification, right after the first, does nothing: two deliveries
  end in the state of one, with the trace of one.
\<close>

theorem redundant_peer_pause_filtered:
  "(producerPaused s \<longrightarrow> channel_listener s ''producerpause'' d l = ([], Inr (), s))
   \<and> (\<not> producerPaused s \<longrightarrow> channel_listener s ''producerresume'' d l = ([], Inr (), s))
   \<and> run s [Notification ''producerpause'' d l, Notification ''producerpause'' d' l'] =
       run s [Notification ''producerpause'' d l]
   \<and> run s [Notification ''producerresume'' d l, Notification ''producerresume'' d' l'] =
       run s [Notification ''producerresume'' d l]"
  by (simp add: channel_listener_def Let_def)

theorem redundant_peer_pause_filtered_witness:
  "producerPaused (sample_consumer\<lparr>producerPaused := True\<rparr>)
   \<and> channel_listener (sample_consumer\<lparr>producerPaused := True\<rparr>) ''producerpause''
        JUndefined Return = ([], Inr (), sample_consumer\<lparr>producerPaused := True\<rparr>)
   \<and> \<not> producerPaused (sample_consumer\<lparr>producerPaused := False\<rparr>)
   \<and> channel_listener (sample_consumer\<lparr>producerPaused := False\<rparr>) ''producerresume''
        JUndefined Return = ([], Inr (), sample_consumer\<lparr>producerPaused := False\<rparr>)"
proof -
  have h1: "producerPaused (sample_consumer\<lparr>producerPaused := True\<rparr>)" by simp
  have h2: "\<not> producerPaused (sample_consumer\<lparr>producerPaused := False\<rparr>)" by simp
  from h1 h2
    redundant_peer_pause_filtered [of "sample_consumer\<lparr>producerPaused := True\<rparr>" JUndefined
      Return]
    redundant_peer_pause_filtered [of "sample_consumer\<lparr>producerPaused := False\<rparr>" JUndefined
      Return]
  show ?thesis by blast
qed

subsection \<open>Application data\<close>

lemma step_appData: "appData (snd (step s a)) = appData s"
  by (cases a)
    (auto simp: async_defs sync_defs Let_def
      split: response.splits sum.splits listeners.splits)

lemma run_appData: "appData (snd (run s as)) = appData s"
  by (induction as arbitrary: s)
    (simp_all only: run.simps(1) run_Cons snd_conv step_appData)

text \<open>
  C10. Assigning to \<^verbatim>\<open>appData\<close> throws the error
  \<^verbatim>\<open>cannot override appData object\<close>, whatever the Consumer and the value, and leaves
  the state, so the stored value, as it was. The getter returns the value given to the
  constructor, right after construction and after every history of method calls and
  notifications.
\<close>

theorem appData_write_protected:
  "set_appData s v = (Inl (Error ''cannot override appData object''), s)
   \<and> get_appData (snd (set_appData s v)) = get_appData s
   \<and> get_appData (snd (new_consumer a)) = arg_appData a
   \<and> get_appData (snd (run (snd (new_consumer a)) as)) = arg_appData a"
  by (simp add: run_appData get_appData_def set_appData_def)
    (simp add: new_consumer_def Let_def)

end
